theory Spec2Isabelle
  imports Complex_Main "HOL-Library.Multiset"
begin

section \<open>Moving obstacle model (auvsi_suas/models/moving_obstacle.py)\<close>

text \<open>
  Python floats are modelled as real numbers. A slot of a numpy float array is a
  \<open>npfloat\<close>: either a number or the NaN that numpy stores when \<open>None\<close> is
  assigned to the slot.
\<close>

subsection \<open>Data\<close>

datatype npfloat = Num real | NaN

datatype error = ZeroDivisionError | IndexError | ValueError

record gps_position =
  latitude :: real
  longitude :: real

record aerial_position =
  gps_position :: gps_position
  altitude_msl :: real

record waypoint =
  position :: aerial_position
  order :: int

record datetime =
  year :: int
  month :: int
  day :: int
  hour :: int
  minute :: int
  second :: int
  microsecond :: int

record uas_telemetry =
  timestamp :: datetime
  uas_position :: aerial_position

text \<open>
  The model instance. \<open>preprocessed_waypoints\<close> and \<open>preprocessed_spline_curve\<close>
  are the two attributes that \<open>get_position\<close> attaches on first use
  (\<open>None\<close>: the attribute is absent).
\<close>

record 's moving_obstacle =
  waypoints :: "waypoint list"
  speed_avg :: real
  sphere_radius :: real
  preprocessed_waypoints :: "waypoint list option"
  preprocessed_spline_curve :: "(npfloat \<times> 's list) option"

text \<open>
  The collaborators whose code is outside this module are parameters:
  \<open>distance.distance_to\<close>, \<open>Waypoint.distance_to\<close>,
  \<open>units.knots_to_feet_per_second\<close>, scipy's \<open>splrep\<close> (called with \<open>per=1\<close>;
  it returns a spline representation or raises, for instance \<open>ValueError\<close> on input it
  refuses) and \<open>splev\<close>, numpy's floating-point remainder \<open>np.mod\<close>,
  \<open>UasTelemetry.interpolate\<close>, the clock \<open>timezone.now\<close> (its value at the n-th read)
  and the subtraction of two datetimes in seconds. Nothing is assumed of them.
\<close>

record 's env =
  distance_to :: "npfloat \<Rightarrow> npfloat \<Rightarrow> npfloat \<Rightarrow> real \<Rightarrow> real \<Rightarrow> real \<Rightarrow> npfloat"
  wpt_distance_to :: "waypoint \<Rightarrow> waypoint \<Rightarrow> real"
  knots_to_feet_per_second :: "real \<Rightarrow> real"
  splrep :: "npfloat list \<Rightarrow> npfloat list \<Rightarrow> nat \<Rightarrow> error + 's"
  splev :: "npfloat \<Rightarrow> 's \<Rightarrow> npfloat"
  np_mod :: "real \<Rightarrow> npfloat \<Rightarrow> npfloat"
  interpolate :: "uas_telemetry list \<Rightarrow> uas_telemetry list"
  timezone_now :: "nat \<Rightarrow> datetime"
  total_seconds :: "datetime \<Rightarrow> datetime \<Rightarrow> real"

subsection \<open>numpy helpers\<close>

text \<open>Assignment of a Python value to a slot of a float array.\<close>

definition np_setitem :: "real option \<Rightarrow> npfloat" where
  "np_setitem v = (case v of None \<Rightarrow> NaN | Some r \<Rightarrow> Num r)"

fun np_add :: "npfloat \<Rightarrow> npfloat \<Rightarrow> npfloat" where
  "np_add (Num a) (Num b) = Num (a + b)"
| "np_add _ _ = NaN"


subsection \<open>Travel times\<close>

definition get_waypoint_travel_time ::
  "'s env \<Rightarrow> 's moving_obstacle \<Rightarrow> waypoint list \<Rightarrow> int option \<Rightarrow> int option
     \<Rightarrow> error + real option" where
  "get_waypoint_travel_time env self wpts id_tm1 id_t =
     (if wpts = [] then Inr None
      else if length wpts < 2 then Inr None
      else case id_tm1 of
        None \<Rightarrow> Inr None
      | Some i \<Rightarrow>
          if i < 0 \<or> i \<ge> int (length wpts) then Inr None
          else case id_t of
            None \<Rightarrow> Inr None
          | Some j \<Rightarrow>
              if j < 0 \<or> j \<ge> int (length wpts) then Inr None
              else if speed_avg self \<le> 0 then Inr None
              else
                let waypoint_t = wpts ! nat j;
                    waypoint_tm1 = wpts ! nat i;
                    waypoint_dist = wpt_distance_to env waypoint_tm1 waypoint_t;
                    speed_avg_fps = knots_to_feet_per_second env (speed_avg self)
                in if speed_avg_fps = 0 then Inl ZeroDivisionError
                   else Inr (Some (waypoint_dist / speed_avg_fps)))"

text \<open>
  The loop of \<open>get_inter_waypoint_travel_times\<close> over \<open>range(1, num_waypoints + 1)\<close>,
  writing into the array \<open>travel_times\<close>.
\<close>

fun travel_times_loop ::
  "'s env \<Rightarrow> 's moving_obstacle \<Rightarrow> waypoint list \<Rightarrow> int list \<Rightarrow> npfloat list
     \<Rightarrow> error + npfloat list" where
  "travel_times_loop env self wpts [] travel_times = Inr travel_times"
| "travel_times_loop env self wpts (waypoint_id # rest) travel_times =
     (let num_waypoints = int (length wpts);
          id_tm1 = (waypoint_id - 1) mod num_waypoints;
          id_t = waypoint_id mod num_waypoints
      in case get_waypoint_travel_time env self wpts (Some id_tm1) (Some id_t) of
           Inl e \<Rightarrow> Inl e
         | Inr cur_travel_time \<Rightarrow>
             travel_times_loop env self wpts rest
               (travel_times[nat waypoint_id := np_setitem cur_travel_time]))"

definition get_inter_waypoint_travel_times ::
  "'s env \<Rightarrow> 's moving_obstacle \<Rightarrow> waypoint list \<Rightarrow> error + npfloat list" where
  "get_inter_waypoint_travel_times env self wpts =
     (let num_waypoints = length wpts;
          travel_times = replicate (num_waypoints + 1) (Num 0)
      in travel_times_loop env self wpts [1 .. int num_waypoints] travel_times)"

text \<open>The loop of \<open>get_waypoint_times\<close> over \<open>range(num_paths)\<close>.\<close>

fun waypoint_times_loop ::
  "npfloat list \<Rightarrow> nat list \<Rightarrow> npfloat \<Rightarrow> npfloat list \<Rightarrow> npfloat list" where
  "waypoint_times_loop waypoint_travel_times [] total_time pos_times = pos_times"
| "waypoint_times_loop waypoint_travel_times (path_id # rest) total_time pos_times =
     (let total_time' = np_add total_time (waypoint_travel_times ! path_id)
      in waypoint_times_loop waypoint_travel_times rest total_time'
           (pos_times[path_id := total_time']))"

definition get_waypoint_times :: "npfloat list \<Rightarrow> npfloat list" where
  "get_waypoint_times waypoint_travel_times =
     (let num_paths = length waypoint_travel_times;
          pos_times = replicate num_paths (Num 0)
      in waypoint_times_loop waypoint_travel_times [0 ..< num_paths] (Num 0) pos_times)"

subsection \<open>Spline curve\<close>

text \<open>
  \<open>positions\<close> is the \<open>(num_waypoints + 1) \<times> 3\<close> array of zeros whose rows
  \<open>0 .. num_waypoints - 1\<close> the first loop of \<open>get_spline_curve\<close> fills.
\<close>

fun positions_loop :: "waypoint list \<Rightarrow> nat list \<Rightarrow> npfloat list list \<Rightarrow> npfloat list list" where
  "positions_loop wpts [] positions = positions"
| "positions_loop wpts (waypoint_id # rest) positions =
     (let cur_waypoint = wpts ! waypoint_id;
          cur_position = position cur_waypoint;
          cur_gps_pos = gps_position cur_position
      in positions_loop wpts rest
           (positions[waypoint_id := [Num (latitude cur_gps_pos),
                                      Num (longitude cur_gps_pos),
                                      Num (altitude_msl cur_position)]]))"

definition positions_array :: "waypoint list \<Rightarrow> npfloat list list" where
  "positions_array wpts =
     (let num_waypoints = length wpts
      in positions_loop wpts [0 ..< num_waypoints]
           (replicate (num_waypoints + 1) [Num 0, Num 0, Num 0]))"

text \<open>The slice \<open>positions[:, iter_dim]\<close>.\<close>

definition column :: "nat \<Rightarrow> npfloat list list \<Rightarrow> npfloat list" where
  "column iter_dim positions = map (\<lambda>row. row ! iter_dim) positions"

text \<open>
  The loop of \<open>get_spline_curve\<close> over \<open>range(3)\<close>, appending each fit to
  \<open>spline_reps\<close>; an exception of \<open>splrep\<close> ends it.
\<close>

fun spline_reps_loop ::
  "'s env \<Rightarrow> npfloat list \<Rightarrow> npfloat list list \<Rightarrow> nat \<Rightarrow> nat list \<Rightarrow> 's list
     \<Rightarrow> error + 's list" where
  "spline_reps_loop env pos_times positions spline_k [] spline_reps = Inr spline_reps"
| "spline_reps_loop env pos_times positions spline_k (iter_dim # rest) spline_reps =
     (case splrep env pos_times (column iter_dim positions) spline_k of
        Inl e \<Rightarrow> Inl e
      | Inr tck \<Rightarrow>
          spline_reps_loop env pos_times positions spline_k rest (spline_reps @ [tck]))"

definition get_spline_curve ::
  "'s env \<Rightarrow> 's moving_obstacle \<Rightarrow> waypoint list \<Rightarrow> error + (npfloat \<times> 's list)" where
  "get_spline_curve env self wpts =
     (let num_waypoints = length wpts;
          positions = positions_array wpts
      in case get_inter_waypoint_travel_times env self wpts of
           Inl e \<Rightarrow> Inl e
         | Inr waypoint_travel_times \<Rightarrow>
             let pos_times = get_waypoint_times waypoint_travel_times;
                 total_travel_time = pos_times ! (length pos_times - 1);
                 spline_k = (if num_waypoints \<ge> 3 then 3 else 2)
             in case spline_reps_loop env pos_times positions spline_k [0, 1, 2] [] of
                  Inl e \<Rightarrow> Inl e
                | Inr spline_reps \<Rightarrow> Inr (total_travel_time, spline_reps))"

subsection \<open>Position\<close>

text \<open>
  The list comprehension of \<open>get_position\<close> that drops a waypoint at zero distance
  from its predecessor in the loaded list.
\<close>

definition dedup :: "'s env \<Rightarrow> waypoint list \<Rightarrow> waypoint list" where
  "dedup env all_wpts =
     map (\<lambda>i. all_wpts ! i)
       (filter (\<lambda>i. i = 0 \<or> wpt_distance_to env (all_wpts ! i) (all_wpts ! (i - 1)) \<noteq> 0)
          [0 ..< length all_wpts])"

text \<open>\<open>self.waypoints.order_by('order')\<close>.\<close>

definition order_by_order :: "waypoint list \<Rightarrow> waypoint list" where
  "order_by_order ws = sort_key order ws"

text \<open>
  \<open>timezone.now().replace(year=1970, month=1, day=1, hour=0, minute=0, second=0,
  microsecond=0)\<close>.
\<close>

definition epoch_time :: "datetime \<Rightarrow> datetime" where
  "epoch_time now =
     now\<lparr>year := 1970, month := 1, day := 1, hour := 0, minute := 0, second := 0,
         microsecond := 0\<rparr>"

type_synonym pos3 = "npfloat \<times> npfloat \<times> npfloat"

text \<open>
  \<open>get_position\<close> takes the instance and the number of clock reads so far and returns
  the position with the updated instance and read count.
\<close>

definition get_position ::
  "'s env \<Rightarrow> 's moving_obstacle \<Rightarrow> nat \<Rightarrow> datetime option
     \<Rightarrow> error + (pos3 \<times> 's moving_obstacle \<times> nat)" where
  "get_position env self n cur_time_arg =
     (let (cur_time, n1) =
            (case cur_time_arg of None \<Rightarrow> (timezone_now env n, n + 1) | Some t \<Rightarrow> (t, n));
          (wpts, self1) =
            (case preprocessed_waypoints self of
               Some w \<Rightarrow> (w, self)
             | None \<Rightarrow>
                 let all_wpts = order_by_order (waypoints self);
                     w = dedup env all_wpts
                 in (w, self\<lparr>preprocessed_waypoints := Some w\<rparr>));
          num_waypoints = length wpts
      in if num_waypoints = 0 then Inr ((Num 0, Num 0, Num 0), self1, n1)
         else if num_waypoints = 1 \<or> speed_avg self1 \<le> 0 then
           (let wpt = wpts ! 0
            in Inr ((Num (latitude (gps_position (position wpt))),
                     Num (longitude (gps_position (position wpt))),
                     Num (altitude_msl (position wpt))), self1, n1))
         else
           case (case preprocessed_spline_curve self1 of
                   Some sc \<Rightarrow> Inr (sc, self1)
                 | None \<Rightarrow>
                     (case get_spline_curve env self1 wpts of
                        Inl e \<Rightarrow> Inl e
                      | Inr sc \<Rightarrow> Inr (sc, self1\<lparr>preprocessed_spline_curve := Some sc\<rparr>))) of
             Inl e \<Rightarrow> Inl e
           | Inr ((total_travel_time, spline_reps), self2) \<Rightarrow>
               (case spline_reps of
                  s0 # s1 # s2 # _ \<Rightarrow>
                    let epoch = epoch_time (timezone_now env n1);
                        cur_time_sec = total_seconds env cur_time epoch;
                        cur_path_time = np_mod env cur_time_sec total_travel_time
                    in Inr ((splev env cur_path_time s0,
                             splev env cur_path_time s1,
                             splev env cur_path_time s2), self2, n1 + 1)
                | _ \<Rightarrow> Inl IndexError))"

subsection \<open>Collision\<close>




subsection \<open>Notions used to state the properties\<close>

text \<open>The value a call returns, without the updated instance and read count.\<close>

definition returned :: "error + ('a \<times> 'b) \<Rightarrow> error + 'a" where
  "returned r = (case r of Inl e \<Rightarrow> Inl e | Inr (v, _) \<Rightarrow> Inr v)"

text \<open>The deduplicated circuit of an instance, as \<open>get_position\<close> computes it on first use.\<close>

definition circuit :: "'s env \<Rightarrow> 's moving_obstacle \<Rightarrow> waypoint list" where
  "circuit env self = dedup env (order_by_order (waypoints self))"


text \<open>
  The attached attributes, when present, hold what \<open>get_position\<close> stores in them:
  the deduplicated circuit and the spline curve fitted to it.
\<close>

definition cache_ok :: "'s env \<Rightarrow> 's moving_obstacle \<Rightarrow> bool" where
  "cache_ok env self =
     ((case preprocessed_waypoints self of
         None \<Rightarrow> True
       | Some w \<Rightarrow> w = circuit env self) \<and>
      (case preprocessed_spline_curve self of
         None \<Rightarrow> True
       | Some sc \<Rightarrow> get_spline_curve env self (circuit env self) = Inr sc))"



text \<open>
  The value of \<open>epoch_time\<close>, the position of a stationary obstacle, the evaluation of a
  spline curve at a timestamp, and the position that \<open>get_position\<close> is shown to
  return for a timestamp whatever it has attached to the instance so far.
\<close>

definition epoch :: datetime where
  "epoch =
     \<lparr>year = 1970, month = 1, day = 1, hour = 0, minute = 0, second = 0, microsecond = 0\<rparr>"

definition stationary :: "waypoint \<Rightarrow> pos3" where
  "stationary wpt =
     (Num (latitude (gps_position (position wpt))),
      Num (longitude (gps_position (position wpt))),
      Num (altitude_msl (position wpt)))"

definition sample_curve :: "'s env \<Rightarrow> datetime \<Rightarrow> npfloat \<times> 's list \<Rightarrow> error + pos3" where
  "sample_curve env t sc =
     (case snd sc of
        s0 # s1 # s2 # _ \<Rightarrow>
          Inr (splev env (np_mod env (total_seconds env t epoch) (fst sc)) s0,
               splev env (np_mod env (total_seconds env t epoch) (fst sc)) s1,
               splev env (np_mod env (total_seconds env t epoch) (fst sc)) s2)
      | _ \<Rightarrow> Inl IndexError)"

definition expected_position :: "'s env \<Rightarrow> 's moving_obstacle \<Rightarrow> datetime \<Rightarrow> error + pos3" where
  "expected_position env self t =
     (if circuit env self = [] then Inr (Num 0, Num 0, Num 0)
      else if length (circuit env self) = 1 \<or> speed_avg self \<le> 0
        then Inr (stationary (circuit env self ! 0))
      else case get_spline_curve env self (circuit env self) of
             Inl e \<Rightarrow> Inl e
           | Inr sc \<Rightarrow> sample_curve env t sc)"

text \<open>A sequence of calls of \<open>get_position\<close> on one instance, results dropped.\<close>

fun get_position_calls ::
  "'s env \<Rightarrow> 's moving_obstacle \<Rightarrow> nat \<Rightarrow> datetime option list
     \<Rightarrow> error + ('s moving_obstacle \<times> nat)" where
  "get_position_calls env self n [] = Inr (self, n)"
| "get_position_calls env self n (c # cs) =
     (case get_position env self n c of
        Inl e \<Rightarrow> Inl e
      | Inr (_, self', n') \<Rightarrow> get_position_calls env self' n' cs)"

text \<open>The segment time the loop of \<open>get_inter_waypoint_travel_times\<close> asks for at index \<open>i\<close>.\<close>

definition segment_time :: "'s env \<Rightarrow> 's moving_obstacle \<Rightarrow> waypoint list \<Rightarrow> int \<Rightarrow> real" where
  "segment_time env self wpts i =
     wpt_distance_to env (wpts ! nat ((i - 1) mod int (length wpts)))
                         (wpts ! nat (i mod int (length wpts)))
       / knots_to_feet_per_second env (speed_avg self)"

text \<open>Running sums, and the deduplication pass as a recursion on the list.\<close>

fun cumsum :: "real \<Rightarrow> real list \<Rightarrow> real list" where
  "cumsum acc [] = []"
| "cumsum acc (r # rs) = (acc + r) # cumsum (acc + r) rs"

fun dedup_from :: "'s env \<Rightarrow> waypoint \<Rightarrow> waypoint list \<Rightarrow> waypoint list" where
  "dedup_from env p [] = []"
| "dedup_from env p (x # xs) =
     (if wpt_distance_to env x p \<noteq> 0 then x # dedup_from env x xs else dedup_from env x xs)"

text \<open>The three rows of coordinates of a waypoint list.\<close>

definition coordinate :: "nat \<Rightarrow> waypoint \<Rightarrow> real" where
  "coordinate iter_dim w =
     (if iter_dim = 0 then latitude (gps_position (position w))
      else if iter_dim = 1 then longitude (gps_position (position w))
      else altitude_msl (position w))"

subsection \<open>A concrete instance\<close>

text \<open>
  An environment to evaluate the model in: a Manhattan distance, two feet per second to
  the knot, a fit that raises \<open>ValueError\<close> unless it is given more points than the
  degree and strictly increasing times (the input check of the periodic fit) and otherwise
  records its arguments, a spline that evaluates to the value at the last knot not after
  its argument, the exact remainder for \<open>np.mod\<close> (NaN for a zero or NaN divisor), no
  densification, a clock that advances one second per read.
\<close>

type_synonym test_spline = "npfloat list \<times> npfloat list \<times> nat"

definition test_distance_to ::
  "npfloat \<Rightarrow> npfloat \<Rightarrow> npfloat \<Rightarrow> real \<Rightarrow> real \<Rightarrow> real \<Rightarrow> npfloat" where
  "test_distance_to a b c x y z =
     (case (a, b, c) of
        (Num a', Num b', Num c') \<Rightarrow> Num (\<bar>a' - x\<bar> + \<bar>b' - y\<bar> + \<bar>c' - z\<bar>)
      | _ \<Rightarrow> NaN)"

definition test_wpt_distance_to :: "waypoint \<Rightarrow> waypoint \<Rightarrow> real" where
  "test_wpt_distance_to a b =
     \<bar>coordinate 0 a - coordinate 0 b\<bar> + \<bar>coordinate 1 a - coordinate 1 b\<bar>
       + \<bar>coordinate 2 a - coordinate 2 b\<bar>"

definition test_total_seconds :: "datetime \<Rightarrow> datetime \<Rightarrow> real" where
  "test_total_seconds a b =
     real_of_int ((((day a - day b) * 24 + (hour a - hour b)) * 60 + (minute a - minute b)) * 60
                   + (second a - second b))
       + real_of_int (microsecond a - microsecond b) / 1000000"

fun test_splev_at :: "real \<Rightarrow> npfloat list \<Rightarrow> npfloat list \<Rightarrow> npfloat \<Rightarrow> npfloat" where
  "test_splev_at t (Num x # xs) (y # ys) cur = (if x \<le> t then test_splev_at t xs ys y else cur)"
| "test_splev_at t _ _ cur = cur"

definition test_splev :: "npfloat \<Rightarrow> test_spline \<Rightarrow> npfloat" where
  "test_splev t tck =
     (case t of NaN \<Rightarrow> NaN | Num r \<Rightarrow> test_splev_at r (fst tck) (fst (snd tck)) NaN)"

fun strictly_increasing :: "npfloat list \<Rightarrow> bool" where
  "strictly_increasing (Num a # Num b # rest) = (a < b \<and> strictly_increasing (Num b # rest))"
| "strictly_increasing [Num a] = True"
| "strictly_increasing [] = True"
| "strictly_increasing _ = False"

definition test_splrep :: "npfloat list \<Rightarrow> npfloat list \<Rightarrow> nat \<Rightarrow> error + test_spline" where
  "test_splrep x y k =
     (if k < length x \<and> strictly_increasing x then Inr (x, y, k) else Inl ValueError)"

definition test_np_mod :: "real \<Rightarrow> npfloat \<Rightarrow> npfloat" where
  "test_np_mod x p =
     (case p of
        NaN \<Rightarrow> NaN
      | Num q \<Rightarrow> if q = 0 then NaN else Num (x - q * of_int \<lfloor>x / q\<rfloor>))"

definition test_env :: "test_spline env" where
  "test_env =
     \<lparr>distance_to = test_distance_to,
      wpt_distance_to = test_wpt_distance_to,
      knots_to_feet_per_second = (\<lambda>k. k * 2),
      splrep = test_splrep,
      splev = test_splev,
      np_mod = test_np_mod,
      interpolate = (\<lambda>logs. logs),
      timezone_now = (\<lambda>n. \<lparr>year = 2026, month = 1, day = 1, hour = 0, minute = 0,
                               second = int n, microsecond = 0\<rparr>),
      total_seconds = test_total_seconds\<rparr>"

definition wpt :: "real \<Rightarrow> real \<Rightarrow> real \<Rightarrow> int \<Rightarrow> waypoint" where
  "wpt la lo al k =
     \<lparr>position = \<lparr>gps_position = \<lparr>latitude = la, longitude = lo\<rparr>, altitude_msl = al\<rparr>,
      order = k\<rparr>"

definition at_second :: "int \<Rightarrow> datetime" where
  "at_second s =
     \<lparr>year = 1970, month = 1, day = 1, hour = 0, minute = 0, second = s, microsecond = 0\<rparr>"



text \<open>Three waypoints at (0, 0, 0), (0, 1, 0) and (1, 1, 0), speed 10.\<close>

definition test_obstacle :: "test_spline moving_obstacle" where
  "test_obstacle =
     \<lparr>waypoints = [wpt 0 0 0 1, wpt 0 1 0 2, wpt 1 1 0 3],
      speed_avg = 10,
      sphere_radius = 1,
      preprocessed_waypoints = None,
      preprocessed_spline_curve = None\<rparr>"



section \<open>Properties\<close>

lemma gwtt_valid:
  assumes "2 \<le> length wpts" "0 < speed_avg self"
    "knots_to_feet_per_second env (speed_avg self) \<noteq> 0"
    "1 \<le> i" "i \<le> int (length wpts)"
  shows "get_waypoint_travel_time env self wpts (Some ((i - 1) mod int (length wpts)))
           (Some (i mod int (length wpts))) = Inr (Some (segment_time env self wpts i))"
proof -
  have ne: "wpts \<noteq> []" using assms(1) by auto
  then have N: "0 < int (length wpts)" by simp
  have a: "\<not> (i - 1) mod int (length wpts) < 0"
         "\<not> int (length wpts) \<le> (i - 1) mod int (length wpts)"
    using N by (simp_all add: not_less not_le)
  have b: "\<not> i mod int (length wpts) < 0" "\<not> int (length wpts) \<le> i mod int (length wpts)"
    using N by (simp_all add: not_less not_le)
  have l2: "\<not> length wpts < 2" using assms(1) by simp
  show ?thesis
    unfolding get_waypoint_travel_time_def segment_time_def Let_def
    using assms(2,3) ne l2 by (simp add: a b)
qed

lemma travel_times_loop_result:
  assumes "2 \<le> length wpts" "0 < speed_avg self"
    "knots_to_feet_per_second env (speed_avg self) \<noteq> 0"
    "\<forall>i\<in>set ids. 1 \<le> i \<and> i \<le> int (length wpts)"
  shows "\<exists>tt'. travel_times_loop env self wpts ids tt = Inr tt' \<and> length tt' = length tt \<and>
           (\<forall>j<length tt. tt' ! j =
              (if int j \<in> set ids then Num (segment_time env self wpts (int j)) else tt ! j))"
  using assms(4)
proof (induction ids arbitrary: tt)
  case Nil
  then show ?case by simp
next
  case (Cons i ids)
  have i: "1 \<le> i" "i \<le> int (length wpts)" using Cons.prems by simp_all
  let ?tt1 = "tt[nat i := Num (segment_time env self wpts i)]"
  have step: "travel_times_loop env self wpts (i # ids) tt = travel_times_loop env self wpts ids ?tt1"
    using gwtt_valid[OF assms(1-3) i] by (simp add: np_setitem_def)
  from Cons.IH[of ?tt1] Cons.prems obtain tt' where
    t: "travel_times_loop env self wpts ids ?tt1 = Inr tt'" "length tt' = length ?tt1"
       "\<forall>j<length ?tt1. tt' ! j =
          (if int j \<in> set ids then Num (segment_time env self wpts (int j)) else ?tt1 ! j)"
    by auto
  have "\<forall>j<length tt. tt' ! j =
          (if int j \<in> set (i # ids) then Num (segment_time env self wpts (int j)) else tt ! j)"
  proof (intro allI impI)
    fix j assume j: "j < length tt"
    show "tt' ! j = (if int j \<in> set (i # ids) then Num (segment_time env self wpts (int j)) else tt ! j)"
    proof (cases "int j = i")
      case True
      then have "nat i = j" by simp
      then show ?thesis using t(3) j True by auto
    next
      case False
      then have "nat i \<noteq> j" using i(1) by auto
      then show ?thesis using t(3) j False by auto
    qed
  qed
  then show ?case using step t(1,2) by simp
qed

lemma get_inter_result:
  assumes "2 \<le> length wpts" "0 < speed_avg self"
    "knots_to_feet_per_second env (speed_avg self) \<noteq> 0"
  shows "\<exists>tt. get_inter_waypoint_travel_times env self wpts = Inr tt \<and>
           length tt = length wpts + 1 \<and> tt ! 0 = Num 0 \<and>
           (\<forall>j. 1 \<le> j \<and> j \<le> length wpts \<longrightarrow> tt ! j = Num (segment_time env self wpts (int j)))"
proof -
  have "\<forall>i\<in>set [1 .. int (length wpts)]. 1 \<le> i \<and> i \<le> int (length wpts)" by simp
  from travel_times_loop_result[OF assms this, of "replicate (length wpts + 1) (Num 0)"]
  obtain tt' where t: "travel_times_loop env self wpts [1 .. int (length wpts)]
        (replicate (length wpts + 1) (Num 0)) = Inr tt'"
     "length tt' = length wpts + 1"
     "\<forall>j<length wpts + 1. tt' ! j =
        (if int j \<in> set [1 .. int (length wpts)] then Num (segment_time env self wpts (int j))
         else replicate (length wpts + 1) (Num 0) ! j)"
    by auto
  have z: "tt' ! 0 = Num 0" using t(3) by simp
  have s: "\<forall>j. 1 \<le> j \<and> j \<le> length wpts \<longrightarrow> tt' ! j = Num (segment_time env self wpts (int j))"
    using t(3) by auto
  show ?thesis using t(1,2) z s by (simp add: get_inter_waypoint_travel_times_def)
qed

lemma get_inter_numeric:
  assumes "2 \<le> length wpts" "0 < speed_avg self"
    "knots_to_feet_per_second env (speed_avg self) \<noteq> 0"
  shows "\<exists>rs. get_inter_waypoint_travel_times env self wpts = Inr (map Num rs) \<and>
           length rs = length wpts + 1"
proof -
  from get_inter_result[OF assms] obtain tt where
    t: "get_inter_waypoint_travel_times env self wpts = Inr tt" "length tt = length wpts + 1"
       "tt ! 0 = Num 0"
       "\<forall>j. 1 \<le> j \<and> j \<le> length wpts \<longrightarrow> tt ! j = Num (segment_time env self wpts (int j))"
    by blast
  let ?rs = "map (\<lambda>j. if j = 0 then 0 else segment_time env self wpts (int j)) [0 ..< length wpts + 1]"
  have "tt = map Num ?rs"
  proof (rule nth_equalityI)
    show "length tt = length (map Num ?rs)" using t(2) by simp
  next
    fix j assume "j < length tt"
    then have j: "j < length wpts + 1" using t(2) by simp
    show "tt ! j = map Num ?rs ! j"
    proof (cases "j = 0")
      case True
      then show ?thesis using t(3) j by (simp del: upt_Suc)
    next
      case False
      then have "1 \<le> j \<and> j \<le> length wpts" using j by simp
      then have "tt ! j = Num (segment_time env self wpts (int j))" using t(4) by blast
      then show ?thesis using False j by (simp del: upt_Suc)
    qed
  qed
  moreover have "length ?rs = length wpts + 1" by (simp del: upt_Suc)
  ultimately show ?thesis using t(1) by blast
qed

lemma waypoint_times_loop_cumsum:
  assumes "tt = pre @ map Num rs" "length pre = k" "k + length rs = length pos"
  shows "waypoint_times_loop tt [k ..< k + length rs] (Num acc) pos
           = take k pos @ map Num (cumsum acc rs)"
  using assms
proof (induction rs arbitrary: pre k acc pos)
  case Nil
  then show ?case by simp
next
  case (Cons r rs)
  have up: "[k ..< k + length (r # rs)] = k # [Suc k ..< Suc k + length rs]"
    using upt_conv_Cons[of k "k + length (r # rs)"] by simp
  have nth: "tt ! k = Num r" using Cons.prems(1,2) by (simp add: nth_append)
  let ?pos1 = "pos[k := Num (acc + r)]"
  have IH: "waypoint_times_loop tt [Suc k ..< Suc k + length rs] (Num (acc + r)) ?pos1
          = take (Suc k) ?pos1 @ map Num (cumsum (acc + r) rs)"
    using Cons.IH[of "pre @ [Num r]" "Suc k" ?pos1 "acc + r"] Cons.prems by simp
  have tk: "take (Suc k) ?pos1 = take k pos @ [Num (acc + r)]"
    using Cons.prems(3) by (simp add: take_Suc_conv_app_nth)
  show ?case unfolding up using nth IH tk by (simp add: Let_def)
qed

lemma get_waypoint_times_cumsum: "get_waypoint_times (map Num rs) = map Num (cumsum 0 rs)"
  using waypoint_times_loop_cumsum[of "map Num rs" "[]" rs 0 "replicate (length rs) (Num 0)" 0]
  by (simp add: get_waypoint_times_def)

lemma length_cumsum: "length (cumsum acc rs) = length rs"
  by (induction rs arbitrary: acc) auto

lemma cumsum_ge: "\<forall>r\<in>set rs. 0 \<le> r \<Longrightarrow> x \<in> set (cumsum acc rs) \<Longrightarrow> acc \<le> x"
proof (induction rs arbitrary: acc)
  case Nil then show ?case by simp
next
  case (Cons r rs)
  then show ?case by (fastforce)
qed

lemma sorted_cumsum: "\<forall>r\<in>set rs. 0 \<le> r \<Longrightarrow> sorted (cumsum acc rs)"
proof (induction rs arbitrary: acc)
  case Nil then show ?case by simp
next
  case (Cons r rs)
  then show ?case using cumsum_ge[of rs _ "acc + r"] by auto
qed

lemma last_cumsum: "rs \<noteq> [] \<Longrightarrow> last (cumsum acc rs) = acc + sum_list rs"
proof (induction rs arbitrary: acc)
  case Nil then show ?case by simp
next
  case (Cons r rs)
  then show ?case by (cases rs) (auto)
qed

lemma cumsum_0: "rs \<noteq> [] \<Longrightarrow> cumsum acc rs ! 0 = acc + hd rs"
  by (cases rs) auto

lemma cumsum_nth: "i < length rs \<Longrightarrow> cumsum acc rs ! i = acc + sum_list (take (Suc i) rs)"
proof (induction rs arbitrary: acc i)
  case Nil
  then show ?case by simp
next
  case (Cons r rs)
  show ?case
  proof (cases i)
    case 0
    then show ?thesis by simp
  next
    case (Suc j)
    then have "j < length rs" using Cons.prems by simp
    from Cons.IH[OF this, of "acc + r"] show ?thesis using Suc by simp
  qed
qed

lemmas test_defs = test_env_def test_obstacle_def wpt_def test_wpt_distance_to_def
  test_distance_to_def coordinate_def

subsection \<open>Segment travel time\<close>

text \<open>
  C4. \<open>get_waypoint_travel_time\<close> returns \<open>None\<close> exactly when the waypoint list is
  empty, or has fewer than two waypoints, or one of the two indices is \<open>None\<close>, negative
  or at least the list length, or \<open>speed_avg\<close> is at most 0; otherwise it returns the
  distance between the two waypoints divided by the speed in feet per second. It never
  raises: the division is by the converted speed, which the unit conversion is assumed to
  keep nonzero for a positive speed.
\<close>

theorem get_waypoint_travel_time_sentinel:
  assumes "0 < speed_avg self \<longrightarrow> knots_to_feet_per_second env (speed_avg self) \<noteq> 0"
  shows "get_waypoint_travel_time env self wpts id_tm1 id_t =
     (if wpts = [] \<or> length wpts < 2
         \<or> (case id_tm1 of None \<Rightarrow> True | Some i \<Rightarrow> i < 0 \<or> int (length wpts) \<le> i)
         \<or> (case id_t of None \<Rightarrow> True | Some j \<Rightarrow> j < 0 \<or> int (length wpts) \<le> j)
         \<or> speed_avg self \<le> 0
      then Inr None
      else Inr (Some (wpt_distance_to env (wpts ! nat (the id_tm1)) (wpts ! nat (the id_t))
                        / knots_to_feet_per_second env (speed_avg self))))"
  using assms by (auto simp: get_waypoint_travel_time_def Let_def split: option.splits)

text \<open>The three-waypoint obstacle: a valid segment, and an index past the end.\<close>

theorem get_waypoint_travel_time_sentinel_witness:
  "knots_to_feet_per_second test_env (speed_avg test_obstacle) \<noteq> 0 \<and>
   get_waypoint_travel_time test_env test_obstacle (waypoints test_obstacle) (Some 0) (Some 1)
     = Inr (Some (1 / 20)) \<and>
   get_waypoint_travel_time test_env test_obstacle (waypoints test_obstacle) (Some 0) (Some 3)
     = Inr None"
  using get_waypoint_travel_time_sentinel[of test_obstacle test_env "waypoints test_obstacle" "Some 0" "Some 1"]
    get_waypoint_travel_time_sentinel[of test_obstacle test_env "waypoints test_obstacle" "Some 0" "Some 3"]
  by (simp add: test_defs)

text \<open>
  C10. With at least two waypoints and a positive speed, each call that the loop of
  \<open>get_inter_waypoint_travel_times\<close> makes, with indices \<open>(i - 1) mod N\<close> and
  \<open>i mod N\<close> for \<open>i\<close> in \<open>1..N\<close>, passes every check and returns a number, so the
  returned array holds no NaN.
\<close>

theorem travel_time_sentinel_unreachable:
  assumes "2 \<le> length wpts" "0 < speed_avg self"
    "knots_to_feet_per_second env (speed_avg self) \<noteq> 0"
  shows "(\<forall>i\<in>{1 .. int (length wpts)}.
            \<exists>d. get_waypoint_travel_time env self wpts (Some ((i - 1) mod int (length wpts)))
                  (Some (i mod int (length wpts))) = Inr (Some d)) \<and>
         (\<exists>tt. get_inter_waypoint_travel_times env self wpts = Inr tt \<and> NaN \<notin> set tt)"
proof
  show "\<forall>i\<in>{1 .. int (length wpts)}.
            \<exists>d. get_waypoint_travel_time env self wpts (Some ((i - 1) mod int (length wpts)))
                  (Some (i mod int (length wpts))) = Inr (Some d)"
    using gwtt_valid[OF assms] by auto
next
  from get_inter_numeric[OF assms] obtain rs where
    "get_inter_waypoint_travel_times env self wpts = Inr (map Num rs)" by blast
  moreover have "NaN \<notin> set (map Num rs)" by auto
  ultimately show "\<exists>tt. get_inter_waypoint_travel_times env self wpts = Inr tt \<and> NaN \<notin> set tt"
    by blast
qed

theorem travel_time_sentinel_unreachable_witness:
  "2 \<le> length (waypoints test_obstacle) \<and> 0 < speed_avg test_obstacle \<and>
   knots_to_feet_per_second test_env (speed_avg test_obstacle) \<noteq> 0 \<and>
   (\<exists>tt. get_inter_waypoint_travel_times test_env test_obstacle (waypoints test_obstacle) = Inr tt
          \<and> NaN \<notin> set tt)"
  using travel_time_sentinel_unreachable[of "waypoints test_obstacle" test_obstacle test_env]
  by (simp add: test_defs)

text \<open>
  C6, for circuits of at least two waypoints. \<open>get_inter_waypoint_travel_times\<close> returns
  \<open>N + 1\<close> entries: entry 0 is zero, entry \<open>i\<close> for \<open>1 \<le> i \<le> N - 1\<close> is the travel
  time from waypoint \<open>i - 1\<close> to waypoint \<open>i\<close>, and entry \<open>N\<close> is the travel time from
  the last waypoint back to the first.
\<close>

theorem inter_waypoint_travel_times_entries:
  assumes "2 \<le> length wpts" "0 < speed_avg self"
    "knots_to_feet_per_second env (speed_avg self) \<noteq> 0"
  shows "\<exists>tt. get_inter_waypoint_travel_times env self wpts = Inr tt \<and>
           length tt = length wpts + 1 \<and>
           tt ! 0 = Num 0 \<and>
           (\<forall>i. 1 \<le> i \<and> i \<le> length wpts - 1 \<longrightarrow>
                tt ! i = Num (wpt_distance_to env (wpts ! (i - 1)) (wpts ! i)
                               / knots_to_feet_per_second env (speed_avg self))) \<and>
           tt ! length wpts = Num (wpt_distance_to env (wpts ! (length wpts - 1)) (wpts ! 0)
                                    / knots_to_feet_per_second env (speed_avg self))"
proof -
  from get_inter_result[OF assms] obtain tt where
    t: "get_inter_waypoint_travel_times env self wpts = Inr tt" "length tt = length wpts + 1"
       "tt ! 0 = Num 0"
       "\<forall>j. 1 \<le> j \<and> j \<le> length wpts \<longrightarrow> tt ! j = Num (segment_time env self wpts (int j))"
    by blast
  have inner: "\<forall>i. 1 \<le> i \<and> i \<le> length wpts - 1 \<longrightarrow>
                tt ! i = Num (wpt_distance_to env (wpts ! (i - 1)) (wpts ! i)
                               / knots_to_feet_per_second env (speed_avg self))"
  proof (intro allI impI)
    fix i assume i: "1 \<le> i \<and> i \<le> length wpts - 1"
    then have "1 \<le> i \<and> i \<le> length wpts" by linarith
    then have e: "tt ! i = Num (segment_time env self wpts (int i))" using t(4) by blast
    have m1: "(int i - 1) mod int (length wpts) = int i - 1"
      using i by (intro mod_pos_pos_trivial) auto
    have m2: "int i mod int (length wpts) = int i"
      using i assms(1) by (intro mod_pos_pos_trivial) auto
    have n1: "nat (int i - 1) = i - 1" using i by simp
    show "tt ! i = Num (wpt_distance_to env (wpts ! (i - 1)) (wpts ! i)
                               / knots_to_feet_per_second env (speed_avg self))"
      using e by (simp add: segment_time_def m1 m2 n1)
  qed
  have m1: "(int (length wpts) - 1) mod int (length wpts) = int (length wpts) - 1"
    using assms(1) by (intro mod_pos_pos_trivial) auto
  have n1: "nat (int (length wpts) - 1) = length wpts - 1" using assms(1) by simp
  have sg: "segment_time env self wpts (int (length wpts))
              = wpt_distance_to env (wpts ! (length wpts - 1)) (wpts ! 0)
                  / knots_to_feet_per_second env (speed_avg self)"
    unfolding segment_time_def m1 n1 by simp
  have "tt ! length wpts = Num (segment_time env self wpts (int (length wpts)))"
    using t(4) assms(1) by simp
  then have wrap: "tt ! length wpts = Num (wpt_distance_to env (wpts ! (length wpts - 1)) (wpts ! 0)
                                    / knots_to_feet_per_second env (speed_avg self))"
    unfolding sg .
  show ?thesis using t(1,2,3) inner wrap by blast
qed

theorem inter_waypoint_travel_times_entries_witness:
  "2 \<le> length (waypoints test_obstacle) \<and> 0 < speed_avg test_obstacle \<and>
   knots_to_feet_per_second test_env (speed_avg test_obstacle) \<noteq> 0 \<and>
   (\<exists>tt. get_inter_waypoint_travel_times test_env test_obstacle (waypoints test_obstacle) = Inr tt \<and>
      length tt = 4 \<and> tt ! 0 = Num 0 \<and> tt ! 1 = Num (1 / 20) \<and> tt ! 2 = Num (1 / 20) \<and>
      tt ! 3 = Num (1 / 10))"
proof -
  have h: "2 \<le> length (waypoints test_obstacle)" "0 < speed_avg test_obstacle"
    "knots_to_feet_per_second test_env (speed_avg test_obstacle) \<noteq> 0"
    by (simp_all add: test_defs)
  from inter_waypoint_travel_times_entries[OF h] obtain tt where
    t: "get_inter_waypoint_travel_times test_env test_obstacle (waypoints test_obstacle) = Inr tt"
      "length tt = length (waypoints test_obstacle) + 1" "tt ! 0 = Num 0"
      "\<forall>i. 1 \<le> i \<and> i \<le> length (waypoints test_obstacle) - 1 \<longrightarrow>
         tt ! i = Num (wpt_distance_to test_env (waypoints test_obstacle ! (i - 1))
                         (waypoints test_obstacle ! i)
                       / knots_to_feet_per_second test_env (speed_avg test_obstacle))"
      "tt ! length (waypoints test_obstacle) =
         Num (wpt_distance_to test_env
                (waypoints test_obstacle ! (length (waypoints test_obstacle) - 1))
                (waypoints test_obstacle ! 0)
              / knots_to_feet_per_second test_env (speed_avg test_obstacle))"
    by blast
  have "tt ! 1 = Num (1 / 20)" using t(4)[rule_format, of 1] by (simp add: test_defs)
  moreover have "tt ! 2 = Num (1 / 20)" using t(4)[rule_format, of 2] by (simp add: test_defs)
  moreover have "tt ! 3 = Num (1 / 10)" using t(5) by (simp add: test_defs eval_nat_numeral)
  moreover have "length tt = 4" using t(2) by (simp add: test_defs)
  ultimately show ?thesis using h t(1,3) by simp
qed

text \<open>
  With a single waypoint the check \<open>len(waypoints) < 2\<close> makes the segment time
  \<open>None\<close>, and entry 1 of the array is NaN, not the travel time from the waypoint to
  itself.
\<close>

theorem inter_waypoint_travel_times_single_counterexample:
  "\<not> (\<exists>tt. get_inter_waypoint_travel_times test_env test_obstacle [wpt 0 0 0 1] = Inr tt \<and>
          tt ! 1 = Num (wpt_distance_to test_env (wpt 0 0 0 1) (wpt 0 0 0 1)
                         / knots_to_feet_per_second test_env (speed_avg test_obstacle)))"
proof -
  have "get_inter_waypoint_travel_times test_env test_obstacle [wpt 0 0 0 1] = Inr [Num 0, NaN]"
    by (simp add: get_inter_waypoint_travel_times_def get_waypoint_travel_time_def np_setitem_def)
  then show ?thesis by simp
qed

subsection \<open>Cumulative arrival times\<close>

text \<open>
  C7. For \<open>N + 1\<close> non-negative travel times with entry 0 equal to zero,
  \<open>get_waypoint_times\<close> returns the \<open>N + 1\<close> cumulative sums (entry \<open>i\<close> is the sum of
  the travel times \<open>0..i\<close>); the sequence is non-decreasing, its entry 0 is 0 and its
  entry \<open>N\<close> is the sum of all travel times.
\<close>

theorem waypoint_times_cumulative:
  assumes "length rs = N + 1" "rs ! 0 = 0" "\<forall>r\<in>set rs. 0 \<le> r"
  shows "\<exists>cs. get_waypoint_times (map Num rs) = map Num cs \<and> length cs = N + 1 \<and>
           (\<forall>i\<le>N. cs ! i = sum_list (take (i + 1) rs)) \<and>
           sorted cs \<and> cs ! 0 = 0 \<and> cs ! N = sum_list rs"
proof -
  have ne: "rs \<noteq> []" using assms(1) by auto
  let ?cs = "cumsum 0 rs"
  have l: "length ?cs = N + 1" using assms(1) by (simp add: length_cumsum)
  have n: "\<forall>i\<le>N. ?cs ! i = sum_list (take (i + 1) rs)"
    using assms(1) by (simp add: cumsum_nth)
  have "hd rs = 0" using assms(2) ne by (simp add: hd_conv_nth)
  then have z: "?cs ! 0 = 0" using cumsum_0[OF ne, of 0] by simp
  have "?cs \<noteq> []" using l by auto
  then have "?cs ! N = last ?cs" using l by (simp add: last_conv_nth)
  then have s: "?cs ! N = sum_list rs" using last_cumsum[OF ne, of 0] by simp
  show ?thesis
    using get_waypoint_times_cumsum[of rs] l n sorted_cumsum[OF assms(3), of 0] z s by blast
qed

theorem waypoint_times_cumulative_witness:
  "\<exists>cs. get_waypoint_times (map Num [0, 1 / 4, 1 / 4, 1 / 2]) = map Num cs \<and> length cs = 4 \<and>
         cs ! 0 = 0 \<and> cs ! 1 = 1 / 4 \<and> cs ! 2 = 1 / 2 \<and> cs ! 3 = 1 \<and> sorted cs"
proof -
  have h: "length [0, 1 / 4, 1 / 4, 1 / 2 :: real] = 3 + 1" "[0, 1 / 4, 1 / 4, 1 / 2 :: real] ! 0 = 0"
    "\<forall>r\<in>set [0, 1 / 4, 1 / 4, 1 / 2 :: real]. 0 \<le> r"
    by simp_all
  from waypoint_times_cumulative[OF h] obtain cs where
    c: "get_waypoint_times (map Num [0, 1 / 4, 1 / 4, 1 / 2]) = map Num cs" "length cs = 3 + 1"
       "\<forall>i\<le>3. cs ! i = sum_list (take (i + 1) [0, 1 / 4, 1 / 4, 1 / 2])" "sorted cs"
    by blast
  have "cs ! 0 = 0" using c(3)[rule_format, of 0] by simp
  moreover have "cs ! 1 = 1 / 4" using c(3)[rule_format, of 1] by simp
  moreover have "cs ! 2 = 1 / 2" using c(3)[rule_format, of 2] by (simp add: eval_nat_numeral)
  moreover have "cs ! 3 = 1" using c(3)[rule_format, of 3] by (simp add: eval_nat_numeral)
  ultimately show ?thesis using c(1,2,4) by auto
qed

subsection \<open>Deduplication of waypoints\<close>

lemma dedup_Nil: "dedup env [] = []"
  by (simp add: dedup_def)

lemma upt_0_Suc_shift: "[0 ..< Suc n] = 0 # map Suc [0 ..< n]"
  by (simp add: upt_conv_Cons map_Suc_upt del: upt_Suc)

lemma dedup_shift:
  "map (\<lambda>i. (p # xs) ! Suc i)
     (filter (\<lambda>i. wpt_distance_to env ((p # xs) ! Suc i) ((p # xs) ! i) \<noteq> 0) [0 ..< length xs])
   = dedup_from env p xs"
proof (induction xs arbitrary: p)
  case Nil
  then show ?case by simp
next
  case (Cons x xs)
  have "[0 ..< length (x # xs)] = 0 # map Suc [0 ..< length xs]"
    using upt_0_Suc_shift[of "length xs"] by simp
  then show ?case
    using Cons.IH[of x] by (simp add: filter_map comp_def del: upt_Suc)
qed

lemma dedup_Cons: "dedup env (x # xs) = x # dedup_from env x xs"
proof -
  have "[0 ..< length (x # xs)] = 0 # map Suc [0 ..< length xs]"
    using upt_0_Suc_shift[of "length xs"] by simp
  then show ?thesis
    unfolding dedup_def using dedup_shift[of x xs env]
    by (simp add: filter_map comp_def del: upt_Suc)
qed

lemma dedup_from_idem:
  assumes H: "\<forall>a b. (wpt_distance_to env a b = 0) = (position a = position b)"
  shows "position q = position p \<Longrightarrow> dedup_from env q (dedup_from env p xs) = dedup_from env p xs"
proof (induction xs arbitrary: p q)
  case Nil
  then show ?case by simp
next
  case (Cons x xs)
  show ?case
  proof (cases "wpt_distance_to env x p = 0")
    case True
    then have "position x = position p" using H by simp
    then have "position q = position x" using Cons.prems by simp
    then show ?thesis using True Cons.IH[of q x] by simp
  next
    case False
    then have "position x \<noteq> position p" using H by simp
    then have "position x \<noteq> position q" using Cons.prems by simp
    then have "wpt_distance_to env x q \<noteq> 0" using H by simp
    then show ?thesis using False Cons.IH[of x x] by simp
  qed
qed

text \<open>
  C8. The deduplication pass of \<open>get_position\<close> (keep index 0; keep index \<open>i > 0\<close> only
  if the distance from waypoint \<open>i\<close> to waypoint \<open>i - 1\<close> is nonzero) is idempotent,
  provided the distance between two waypoints is zero exactly when their positions
  coincide.
\<close>

theorem dedup_idempotent:
  assumes "\<forall>a b. (wpt_distance_to env a b = 0) = (position a = position b)"
  shows "dedup env (dedup env all_wpts) = dedup env all_wpts"
proof (cases all_wpts)
  case Nil
  then show ?thesis by (simp add: dedup_Nil)
next
  case (Cons x xs)
  then show ?thesis
    using dedup_from_idem[OF assms, of x x xs] by (simp add: dedup_Cons)
qed

text \<open>The distance of the concrete instance is zero exactly between equal positions.\<close>

lemma test_distance_zero:
  "(wpt_distance_to test_env a b = 0) = (position a = position b)"
proof -
  obtain pa oa where a: "a = \<lparr>position = pa, order = oa\<rparr>" by (cases a) auto
  obtain pb ob where b: "b = \<lparr>position = pb, order = ob\<rparr>" by (cases b) auto
  obtain ga aa where pa: "pa = \<lparr>gps_position = ga, altitude_msl = aa\<rparr>" by (cases pa) auto
  obtain gb ab where pb: "pb = \<lparr>gps_position = gb, altitude_msl = ab\<rparr>" by (cases pb) auto
  obtain la lo where ga: "ga = \<lparr>latitude = la, longitude = lo\<rparr>" by (cases ga) auto
  obtain lb lp where gb: "gb = \<lparr>latitude = lb, longitude = lp\<rparr>" by (cases gb) auto
  show ?thesis
    unfolding a b pa pb ga gb
    by (auto simp: test_env_def test_wpt_distance_to_def coordinate_def)
qed

theorem dedup_idempotent_witness:
  "dedup test_env (dedup test_env [wpt 0 0 0 1, wpt 0 0 0 2, wpt 0 1 0 3, wpt 0 0 0 4])
     = [wpt 0 0 0 1, wpt 0 1 0 3, wpt 0 0 0 4] \<and>
   dedup test_env [wpt 0 0 0 1, wpt 0 0 0 2, wpt 0 1 0 3, wpt 0 0 0 4]
     = [wpt 0 0 0 1, wpt 0 1 0 3, wpt 0 0 0 4]"
proof -
  have d: "dedup test_env [wpt 0 0 0 1, wpt 0 0 0 2, wpt 0 1 0 3, wpt 0 0 0 4]
     = [wpt 0 0 0 1, wpt 0 1 0 3, wpt 0 0 0 4]"
    by (simp add: dedup_Cons test_env_def test_wpt_distance_to_def coordinate_def wpt_def)
  have h: "\<forall>a b. (wpt_distance_to test_env a b = 0) = (position a = position b)"
    using test_distance_zero by blast
  show ?thesis
    using dedup_idempotent[OF h, of "[wpt 0 0 0 1, wpt 0 0 0 2, wpt 0 1 0 3, wpt 0 0 0 4]"] d
    by simp
qed

subsection \<open>Control points of the spline fit\<close>

lemma positions_loop_fill:
  assumes "wpts = pre @ rest" "length pre = k" "k + length rest \<le> length P"
  shows "positions_loop wpts [k ..< k + length rest] P
           = take k P @ map (\<lambda>w. [Num (coordinate 0 w), Num (coordinate 1 w), Num (coordinate 2 w)]) rest
               @ drop (k + length rest) P"
  using assms
proof (induction rest arbitrary: pre k P)
  case Nil
  then show ?case by simp
next
  case (Cons w rest)
  let ?row = "[Num (coordinate 0 w), Num (coordinate 1 w), Num (coordinate 2 w)]"
  have up: "[k ..< k + length (w # rest)] = k # [Suc k ..< Suc k + length rest]"
    using upt_conv_Cons[of k "k + length (w # rest)"] by simp
  have nth: "wpts ! k = w" using Cons.prems(1,2) by (simp add: nth_append)
  let ?P1 = "P[k := ?row]"
  have IH: "positions_loop wpts [Suc k ..< Suc k + length rest] ?P1
          = take (Suc k) ?P1
              @ map (\<lambda>w. [Num (coordinate 0 w), Num (coordinate 1 w), Num (coordinate 2 w)]) rest
              @ drop (Suc k + length rest) ?P1"
    using Cons.IH[of "pre @ [w]" "Suc k" ?P1] Cons.prems by simp
  have tk: "take (Suc k) ?P1 = take k P @ [?row]"
    using Cons.prems(3) by (simp add: take_Suc_conv_app_nth)
  have dr: "drop (Suc k + length rest) ?P1 = drop (Suc k + length rest) P" by simp
  show ?case unfolding up using nth IH tk dr by (simp add: Let_def coordinate_def)
qed

lemma drop_replicate_last: "drop n (z # replicate n z) = [z]"
  by (induction n) simp_all

lemma positions_array_rows:
  "positions_array wpts
     = map (\<lambda>w. [Num (coordinate 0 w), Num (coordinate 1 w), Num (coordinate 2 w)]) wpts
         @ [[Num 0, Num 0, Num 0]]"
  using positions_loop_fill[of wpts "[]" wpts 0 "replicate (length wpts + 1) [Num 0, Num 0, Num 0]"]
  by (simp add: positions_array_def Let_def drop_replicate_last)

lemma column_positions_array:
  "d < 3 \<Longrightarrow> column d (positions_array wpts) = map (\<lambda>w. Num (coordinate d w)) wpts @ [Num 0]"
proof -
  assume "d < 3"
  then consider "d = 0" | "d = 1" | "d = 2" by linarith
  then show ?thesis
    by cases (simp_all add: column_def positions_array_rows comp_def)
qed

lemma travel_times_loop_length:
  "travel_times_loop env self wpts ids tt = Inr tt' \<Longrightarrow> length tt' = length tt"
proof (induction ids arbitrary: tt)
  case Nil
  then show ?case by simp
next
  case (Cons i ids)
  then show ?case by (auto simp: Let_def split: sum.splits)
qed

lemma get_inter_length:
  "get_inter_waypoint_travel_times env self wpts = Inr tt \<Longrightarrow> length tt = length wpts + 1"
  using travel_times_loop_length[of env self wpts "[1 .. int (length wpts)]"
          "replicate (length wpts + 1) (Num 0)" tt]
  by (simp add: get_inter_waypoint_travel_times_def Let_def)

lemma waypoint_times_loop_length:
  "length (waypoint_times_loop tt ids acc pos) = length pos"
  by (induction ids arbitrary: acc pos) (simp_all add: Let_def)

lemma get_waypoint_times_length: "length (get_waypoint_times tt) = length tt"
  by (simp add: get_waypoint_times_def waypoint_times_loop_length Let_def)

text \<open>
  C5, as the code has it. For each of the three dimensions in turn (latitude, longitude,
  altitude) the periodic fit receives the cumulative arrival times \<open>pos_times\<close>
  (\<open>N + 1\<close> entries, the last of which is the total travel time that
  \<open>get_spline_curve\<close> returns), the coordinates of the \<open>N\<close> waypoints followed by the
  zero that the last row of \<open>positions\<close> keeps from its initialisation, and the degree 3
  for three or more waypoints and 2 otherwise; an exception of a fit is the outcome of
  \<open>get_spline_curve\<close>.
\<close>

theorem spline_control_points:
  assumes "get_inter_waypoint_travel_times env self wpts = Inr travel_times"
  shows "get_spline_curve env self wpts =
           (case splrep env (get_waypoint_times travel_times)
                   (map (\<lambda>w. Num (coordinate 0 w)) wpts @ [Num 0])
                   (if 3 \<le> length wpts then 3 else 2) of
              Inl e \<Rightarrow> Inl e
            | Inr lat_tck \<Rightarrow>
           (case splrep env (get_waypoint_times travel_times)
                   (map (\<lambda>w. Num (coordinate 1 w)) wpts @ [Num 0])
                   (if 3 \<le> length wpts then 3 else 2) of
              Inl e \<Rightarrow> Inl e
            | Inr lon_tck \<Rightarrow>
           (case splrep env (get_waypoint_times travel_times)
                   (map (\<lambda>w. Num (coordinate 2 w)) wpts @ [Num 0])
                   (if 3 \<le> length wpts then 3 else 2) of
              Inl e \<Rightarrow> Inl e
            | Inr alt_tck \<Rightarrow>
                Inr (get_waypoint_times travel_times ! length wpts,
                     [lat_tck, lon_tck, alt_tck])))) \<and>
         length (get_waypoint_times travel_times) = length wpts + 1"
proof -
  have l: "length (get_waypoint_times travel_times) = length wpts + 1"
    using get_inter_length[OF assms] by (simp add: get_waypoint_times_length)
  show ?thesis
    using assms l
    by (simp add: get_spline_curve_def Let_def column_positions_array split: sum.splits)
qed

lemma test_inter_two:
  "get_inter_waypoint_travel_times test_env test_obstacle [wpt 1 2 3 1, wpt 4 5 6 2]
     = Inr [Num 0, Num (9 / 20), Num (9 / 20)]"
  by (simp add: get_inter_waypoint_travel_times_def get_waypoint_travel_time_def np_setitem_def
        upto.simps test_defs)

lemma test_times_two:
  "get_waypoint_times [Num 0, Num (9 / 20), Num (9 / 20)] = [Num 0, Num (9 / 20), Num (9 / 10)]"
  by (simp add: get_waypoint_times_def upt_conv_Cons)

lemma splrep_test_env: "splrep test_env = test_splrep"
  by (simp add: test_env_def)

lemma coordinate_wpt:
  "coordinate 0 (wpt a b c k) = a" "coordinate 1 (wpt a b c k) = b"
  "coordinate (Suc 0) (wpt a b c k) = b" "coordinate 2 (wpt a b c k) = c"
  by (simp_all add: coordinate_def wpt_def)

lemma test_spline_two:
  "get_spline_curve test_env test_obstacle [wpt 1 2 3 1, wpt 4 5 6 2] =
     Inr (Num (9 / 10),
          [([Num 0, Num (9 / 20), Num (9 / 10)], [Num 1, Num 4, Num 0], 2),
           ([Num 0, Num (9 / 20), Num (9 / 10)], [Num 2, Num 5, Num 0], 2),
           ([Num 0, Num (9 / 20), Num (9 / 10)], [Num 3, Num 6, Num 0], 2)])"
  by (simp add: get_spline_curve_def test_inter_two Let_def column_positions_array
        test_times_two splrep_test_env test_splrep_def coordinate_wpt)

theorem spline_control_points_witness:
  "get_spline_curve test_env test_obstacle [wpt 1 2 3 1, wpt 4 5 6 2] =
     Inr (Num (9 / 10),
          [([Num 0, Num (9 / 20), Num (9 / 10)], [Num 1, Num 4, Num 0], 2),
           ([Num 0, Num (9 / 20), Num (9 / 10)], [Num 2, Num 5, Num 0], 2),
           ([Num 0, Num (9 / 20), Num (9 / 10)], [Num 3, Num 6, Num 0], 2)])"
  using spline_control_points[OF test_inter_two]
  by (simp add: test_times_two splrep_test_env test_splrep_def coordinate_wpt)

text \<open>
  The last control point does not repeat the coordinate of the first: for waypoints at
  latitudes 1 and 4 the latitudes passed to the fit are 1, 4, 0.
\<close>

theorem spline_last_control_point_counterexample:
  "\<not> (\<exists>total_travel_time pos_times ys spline_k rest.
         get_spline_curve test_env test_obstacle [wpt 1 2 3 1, wpt 4 5 6 2]
           = Inr (total_travel_time, (pos_times, ys, spline_k) # rest) \<and>
         ys ! 2 = ys ! 0)"
  by (simp add: test_spline_two)

subsection \<open>Position of the obstacle\<close>

text \<open>The reference epoch does not depend on the clock reading it is built from.\<close>

lemma epoch_time_const: "epoch_time now = epoch"
  by (cases now) (simp add: epoch_time_def epoch_def)

lemma gwtt_speed:
  "speed_avg a = speed_avg b \<Longrightarrow>
   get_waypoint_travel_time env a wpts i j = get_waypoint_travel_time env b wpts i j"
  by (auto simp: get_waypoint_travel_time_def split: option.splits)

lemma travel_times_loop_speed:
  "speed_avg a = speed_avg b \<Longrightarrow>
   travel_times_loop env a wpts ids tt = travel_times_loop env b wpts ids tt"
proof (induction ids arbitrary: tt)
  case Nil
  then show ?case by simp
next
  case (Cons i ids)
  then show ?case
    using gwtt_speed[of a b env wpts] by (simp add: Let_def split: sum.splits)
qed

lemma get_spline_curve_speed:
  "speed_avg a = speed_avg b \<Longrightarrow> get_spline_curve env a wpts = get_spline_curve env b wpts"
  using travel_times_loop_speed[of a b env wpts]
  by (simp add: get_spline_curve_def get_inter_waypoint_travel_times_def)

lemma get_spline_curve_reps:
  "get_spline_curve env self wpts = Inr sc \<Longrightarrow> \<exists>s0 s1 s2. snd sc = [s0, s1, s2]"
  by (auto simp: get_spline_curve_def Let_def split: sum.splits)

text \<open>
  One call of \<open>get_position\<close> on an instance whose attached attributes hold what the
  code stores in them.
\<close>

lemma get_position_unfold:
  assumes "cache_ok env self"
  shows "get_position env self n c =
     (let t = (case c of None \<Rightarrow> timezone_now env n | Some t \<Rightarrow> t);
          n1 = (case c of None \<Rightarrow> n + 1 | Some t \<Rightarrow> n);
          w = circuit env self;
          self1 = (case preprocessed_waypoints self of
                     Some w' \<Rightarrow> self | None \<Rightarrow> self\<lparr>preprocessed_waypoints := Some w\<rparr>)
      in if w = [] then Inr ((Num 0, Num 0, Num 0), self1, n1)
         else if length w = 1 \<or> speed_avg self \<le> 0 then Inr (stationary (w ! 0), self1, n1)
         else
           case preprocessed_spline_curve self of
             Some sc \<Rightarrow>
               (case sample_curve env t sc of
                  Inl e \<Rightarrow> Inl e
                | Inr p \<Rightarrow> Inr (p, self1, n1 + 1))
           | None \<Rightarrow>
               (case get_spline_curve env self w of
                  Inl e \<Rightarrow> Inl e
                | Inr sc \<Rightarrow>
                    (case sample_curve env t sc of
                       Inl e \<Rightarrow> Inl e
                     | Inr p \<Rightarrow> Inr (p, self1\<lparr>preprocessed_spline_curve := Some sc\<rparr>, n1 + 1))))"
proof (cases "preprocessed_waypoints self")
  case None
  have sp: "get_spline_curve env (self\<lparr>preprocessed_waypoints := Some (circuit env self)\<rparr>)
              (circuit env self) = get_spline_curve env self (circuit env self)"
    by (rule get_spline_curve_speed) simp
  show ?thesis
    using None sp
    by (auto simp: get_position_def Let_def stationary_def sample_curve_def epoch_time_const
          circuit_def
          split: option.splits sum.splits list.splits prod.splits)
next
  case (Some w')
  then have w': "w' = circuit env self" using assms by (simp add: cache_ok_def)
  show ?thesis
    using Some w'
    by (auto simp: get_position_def Let_def stationary_def sample_curve_def epoch_time_const
          split: option.splits sum.splits list.splits prod.splits)
qed

lemma cache_okI:
  assumes "waypoints b = waypoints a" "speed_avg b = speed_avg a"
    "\<And>w. preprocessed_waypoints b = Some w \<Longrightarrow> w = circuit env a"
    "\<And>sc. preprocessed_spline_curve b = Some sc \<Longrightarrow> get_spline_curve env a (circuit env a) = Inr sc"
  shows "cache_ok env b"
proof -
  have c: "circuit env b = circuit env a" using assms(1) by (simp add: circuit_def)
  have g: "get_spline_curve env b (circuit env a) = get_spline_curve env a (circuit env a)"
    using assms(2) by (rule get_spline_curve_speed)
  show ?thesis
    using assms(3,4) by (auto simp: cache_ok_def c g split: option.splits)
qed

lemma get_position_returned:
  assumes "cache_ok env self"
  shows "returned (get_position env self n c)
           = expected_position env self (case c of None \<Rightarrow> timezone_now env n | Some t \<Rightarrow> t)"
proof (cases "preprocessed_spline_curve self")
  case None
  then show ?thesis
    unfolding get_position_unfold[OF assms]
    by (auto simp: returned_def expected_position_def Let_def split: sum.splits)
next
  case (Some sc)
  then have "get_spline_curve env self (circuit env self) = Inr sc"
    using assms by (simp add: cache_ok_def)
  then show ?thesis
    unfolding get_position_unfold[OF assms] using Some
    by (auto simp: returned_def expected_position_def Let_def split: sum.splits)
qed

lemma get_position_preserves:
  assumes "cache_ok env self" "get_position env self n c = Inr (p, self', n')"
  shows "cache_ok env self' \<and> waypoints self' = waypoints self \<and>
         speed_avg self' = speed_avg self \<and> sphere_radius self' = sphere_radius self"
proof -
  have a: "\<And>w. preprocessed_waypoints self = Some w \<Longrightarrow> w = circuit env self"
    using assms(1) by (simp add: cache_ok_def)
  have b: "\<And>sc. preprocessed_spline_curve self = Some sc \<Longrightarrow>
              get_spline_curve env self (circuit env self) = Inr sc"
    using assms(1) by (simp add: cache_ok_def)
  show ?thesis
    using assms(2) a b unfolding get_position_unfold[OF assms(1)]
    by (auto simp: Let_def intro!: cache_okI[of _ self]
          split: if_splits option.splits sum.splits)
qed


lemma expected_position_config:
  assumes "waypoints a = waypoints b" "speed_avg a = speed_avg b"
  shows "expected_position env a t = expected_position env b t"
proof -
  have c: "circuit env a = circuit env b" using assms(1) by (simp add: circuit_def)
  have g: "get_spline_curve env a (circuit env b) = get_spline_curve env b (circuit env b)"
    using assms(2) by (rule get_spline_curve_speed)
  show ?thesis by (simp add: expected_position_def c g assms(2))
qed


lemma get_position_calls_preserves:
  assumes "cache_ok env self" "get_position_calls env self n calls = Inr (self', n')"
  shows "cache_ok env self' \<and> waypoints self' = waypoints self \<and> speed_avg self' = speed_avg self"
  using assms
proof (induction calls arbitrary: self n)
  case Nil
  then show ?case by simp
next
  case (Cons c calls)
  from Cons.prems(2) obtain p s1 n1 where
    g: "get_position env self n c = Inr (p, s1, n1)"
    and r: "get_position_calls env s1 n1 calls = Inr (self', n')"
    by (auto split: sum.splits)
  from get_position_preserves[OF Cons.prems(1) g] Cons.IH[OF _ r]
  show ?case by simp
qed

lemma expected_position_total:
  assumes "length (circuit env self) < 2 \<or> speed_avg self \<le> 0 \<or>
           (\<exists>sc. get_spline_curve env self (circuit env self) = Inr sc)"
  shows "\<exists>p. expected_position env self t = Inr p"
proof (cases "circuit env self = [] \<or> length (circuit env self) = 1 \<or> speed_avg self \<le> 0")
  case True
  then show ?thesis by (auto simp: expected_position_def stationary_def)
next
  case False
  then have l: "2 \<le> length (circuit env self)" and sp: "0 < speed_avg self"
    by (cases "circuit env self"; cases "tl (circuit env self)"; auto)+
  from assms l sp obtain sc where
    g: "get_spline_curve env self (circuit env self) = Inr sc" by auto
  from get_spline_curve_reps[OF g] obtain s0 s1 s2 where "snd sc = [s0, s1, s2]" by blast
  then show ?thesis using False g by (simp add: expected_position_def sample_curve_def)
qed

lemma test_circuit:
  "circuit test_env test_obstacle = [wpt 0 0 0 1, wpt 0 1 0 2, wpt 1 1 0 3]"
  by (simp add: circuit_def order_by_order_def dedup_Cons test_defs)

lemma test_cache_ok:
  "cache_ok test_env (test_obstacle\<lparr>waypoints := ws, speed_avg := v\<rparr>)"
  by (simp add: cache_ok_def test_obstacle_def)

text \<open>
  C2. When the deduplicated circuit has no waypoint, \<open>get_position\<close> returns
  \<open>(0, 0, 0)\<close> and does not fail; when it has exactly one waypoint, or it is not empty
  and \<open>speed_avg\<close> is at most 0, \<open>get_position\<close> returns the latitude, longitude and
  altitude of the first waypoint, whatever the timestamp.
\<close>

theorem get_position_stationary:
  assumes "cache_ok env self"
  shows "(circuit env self = [] \<longrightarrow>
            returned (get_position env self n cur_time) = Inr (Num 0, Num 0, Num 0)) \<and>
         (circuit env self \<noteq> [] \<and> (length (circuit env self) = 1 \<or> speed_avg self \<le> 0) \<longrightarrow>
            returned (get_position env self n cur_time) =
              Inr (Num (latitude (gps_position (position (circuit env self ! 0)))),
                   Num (longitude (gps_position (position (circuit env self ! 0)))),
                   Num (altitude_msl (position (circuit env self ! 0)))))"
  using get_position_returned[OF assms, of n cur_time]
  by (simp add: expected_position_def stationary_def)

theorem get_position_stationary_witness:
  "returned (get_position test_env (test_obstacle\<lparr>waypoints := [], speed_avg := 10\<rparr>) 0 None)
     = Inr (Num 0, Num 0, Num 0) \<and>
   returned (get_position test_env (test_obstacle\<lparr>waypoints := [wpt 1 2 3 1], speed_avg := 10\<rparr>) 0
               (Some (at_second 7)))
     = Inr (Num 1, Num 2, Num 3) \<and>
   returned (get_position test_env
               (test_obstacle\<lparr>waypoints := [wpt 1 2 3 1, wpt 4 5 6 2], speed_avg := 0\<rparr>) 5
               (Some (at_second 9)))
     = Inr (Num 1, Num 2, Num 3)"
proof -
  have c0: "circuit test_env (test_obstacle\<lparr>waypoints := [], speed_avg := 10\<rparr>) = []"
    by (simp add: circuit_def order_by_order_def dedup_Nil)
  have c1: "circuit test_env (test_obstacle\<lparr>waypoints := [wpt 1 2 3 1], speed_avg := 10\<rparr>)
              = [wpt 1 2 3 1]"
    by (simp add: circuit_def order_by_order_def dedup_Cons)
  have c2: "circuit test_env (test_obstacle\<lparr>waypoints := [wpt 1 2 3 1, wpt 4 5 6 2], speed_avg := 0\<rparr>)
              = [wpt 1 2 3 1, wpt 4 5 6 2]"
    by (simp add: circuit_def order_by_order_def dedup_Cons test_env_def test_wpt_distance_to_def
          coordinate_def wpt_def)
  have w: "latitude (gps_position (position (wpt 1 2 3 1))) = 1"
    "longitude (gps_position (position (wpt 1 2 3 1))) = 2"
    "altitude_msl (position (wpt 1 2 3 1)) = 3"
    by (simp_all add: wpt_def)
  show ?thesis
    using get_position_stationary[OF test_cache_ok[where ws="[]" and v=10],
        where n=0 and cur_time=None]
      get_position_stationary[OF test_cache_ok[where ws="[wpt 1 2 3 1]" and v=10],
        where n=0 and cur_time="Some (at_second 7)"]
      get_position_stationary[OF test_cache_ok[where ws="[wpt 1 2 3 1, wpt 4 5 6 2]" and v=0],
        where n=5 and cur_time="Some (at_second 9)"]
    by (simp add: c0 c1 c2 w)
qed

lemma test_inter_three:
  "get_inter_waypoint_travel_times test_env test_obstacle [wpt 0 0 0 1, wpt 0 1 0 2, wpt 1 1 0 3]
     = Inr [Num 0, Num (1 / 20), Num (1 / 20), Num (1 / 10)]"
  by (simp add: get_inter_waypoint_travel_times_def get_waypoint_travel_time_def np_setitem_def
        upto.simps test_defs)

lemma test_times_three:
  "get_waypoint_times [Num 0, Num (1 / 20), Num (1 / 20), Num (1 / 10)]
     = [Num 0, Num (1 / 20), Num (1 / 10), Num (1 / 5)]"
  by (simp add: get_waypoint_times_def upt_conv_Cons)

lemma test_spline_three:
  "get_spline_curve test_env test_obstacle (circuit test_env test_obstacle) =
     Inr (Num (1 / 5),
          [([Num 0, Num (1 / 20), Num (1 / 10), Num (1 / 5)], [Num 0, Num 0, Num 1, Num 0], 3),
           ([Num 0, Num (1 / 20), Num (1 / 10), Num (1 / 5)], [Num 0, Num 1, Num 1, Num 0], 3),
           ([Num 0, Num (1 / 20), Num (1 / 10), Num (1 / 5)], [Num 0, Num 0, Num 0, Num 0], 3)])"
  by (simp add: test_circuit get_spline_curve_def test_inter_three Let_def column_positions_array
        test_times_three splrep_test_env test_splrep_def coordinate_wpt)

lemma test_obstacle_ok: "cache_ok test_env test_obstacle"
  by (simp add: cache_ok_def test_obstacle_def)


text \<open>
  C9. Starting from a freshly constructed instance, after any two sequences of calls of
  \<open>get_position\<close> that return, a call with a given timestamp returns the same position
  in both resulting states, whichever call attached the deduplicated waypoints and the
  spline curve; and the reference epoch is the same at every clock reading.
\<close>

theorem get_position_deterministic:
  assumes "preprocessed_waypoints self = None" "preprocessed_spline_curve self = None"
    "get_position_calls env self n1 calls1 = Inr (self1, m1)"
    "get_position_calls env self n2 calls2 = Inr (self2, m2)"
  shows "returned (get_position env self1 m1 (Some t)) =
         returned (get_position env self2 m2 (Some t)) \<and>
         epoch_time (timezone_now env m1) = epoch_time (timezone_now env m2)"
proof -
  have ok: "cache_ok env self" using assms(1,2) by (simp add: cache_ok_def)
  note p1 = get_position_calls_preserves[OF ok assms(3)]
  note p2 = get_position_calls_preserves[OF ok assms(4)]
  have "returned (get_position env self1 m1 (Some t)) = expected_position env self t"
    using get_position_returned[of env self1 m1 "Some t"] p1
      expected_position_config[of self1 self env t] by simp
  moreover have "returned (get_position env self2 m2 (Some t)) = expected_position env self t"
    using get_position_returned[of env self2 m2 "Some t"] p2
      expected_position_config[of self2 self env t] by simp
  ultimately show ?thesis by (simp add: epoch_time_const)
qed

lemma returned_InrD: "returned r = Inr p \<Longrightarrow> \<exists>s. r = Inr (p, s)"
  by (auto simp: returned_def split: sum.splits)

theorem get_position_deterministic_witness:
  "\<exists>self1 m1. get_position_calls test_env test_obstacle 0 [Some (at_second 3), None] = Inr (self1, m1) \<and>
      returned (get_position test_env self1 m1 (Some (at_second 7))) =
      returned (get_position test_env test_obstacle 0 (Some (at_second 7)))"
proof -
  have k: "\<And>t. \<exists>p. expected_position test_env test_obstacle t = Inr p"
    by (rule expected_position_total) (simp add: test_spline_three)
  obtain p where "returned (get_position test_env test_obstacle 0 (Some (at_second 3))) = Inr p"
    using get_position_returned[OF test_obstacle_ok, of 0 "Some (at_second 3)"] k by metis
  then obtain sa na where
    a: "get_position test_env test_obstacle 0 (Some (at_second 3)) = Inr (p, sa, na)"
    using returned_InrD by fastforce
  note pa = get_position_preserves[OF test_obstacle_ok a]
  have "expected_position test_env sa (timezone_now test_env na)
          = expected_position test_env test_obstacle (timezone_now test_env na)"
    by (rule expected_position_config) (simp_all add: pa)
  then obtain q where "returned (get_position test_env sa na None) = Inr q"
    using get_position_returned[of test_env sa na None] pa k by (metis option.simps(4))
  then obtain sb nb where b: "get_position test_env sa na None = Inr (q, sb, nb)"
    using returned_InrD by fastforce
  have c: "get_position_calls test_env test_obstacle 0 [Some (at_second 3), None] = Inr (sb, nb)"
    using a b by simp
  have d: "get_position_calls test_env test_obstacle 0 [] = Inr (test_obstacle, 0)" by simp
  have f: "preprocessed_waypoints test_obstacle = None"
    "preprocessed_spline_curve test_obstacle = None"
    by (simp_all add: test_obstacle_def)
  from get_position_deterministic[OF f c d, of "at_second 7"] c show ?thesis by blast
qed

subsection \<open>Collision with the UAS\<close>















end
